theory Spec2Isabelle
  imports Main
begin

section \<open>The rhino backend: a shallow embedding of \<open>api/index.py\<close>\<close>

text \<open>
  The module is a FastAPI application with three routes. Its own code is the start-up block
  (reading \<open>GEMINI_API_KEY\<close> and configuring the Gemini client) and the three handler
  bodies. Everything the module does beyond returning a value is explicit here: the process
  environment, the client's configured key and the calls made to the outside (printing,
  \<open>genai\<close>, \<open>uvicorn\<close>) live in a \<open>world\<close> that every operation takes and returns, and
  every \<open>raise\<close> is a value of the result type.
\<close>

subsection \<open>Values\<close>

text \<open>JSON values: what a handler returns and what a request body holds. A Python
  \<open>dict\<close> is an association list in insertion order.\<close>

datatype json =
    JNull
  | JBool bool
  | JInt int
  | JString string
  | JArray "json list"
  | JObject "(string \<times> json) list"

text \<open>Text that reaches the module over HTTP or from the process environment is valid
  UTF-8 and is a \<open>string\<close>, the bytes of its encoding. A Python \<open>str\<close> that a library hands
  to the module (the generated text, the message of an exception) is a sequence of code
  points, each below \<open>0x110000\<close>, and may hold surrogates (\<open>0xD800\<close> to \<open>0xDFFF\<close>), which
  UTF-8 cannot encode.\<close>

type_synonym pystr = "nat list"

text \<open>The \<open>str\<close> of an ASCII literal.\<close>

definition codepoints :: "string \<Rightarrow> pystr" where
  "codepoints s = map of_char s"

text \<open>A raised Python exception: whether it is an instance of \<open>Exception\<close> (the only ones
  \<open>except Exception\<close> catches; \<open>KeyboardInterrupt\<close> and \<open>SystemExit\<close> are not), the name
  of its class, and what \<open>str(e)\<close> does: it returns a \<open>str\<close>, or it raises in its turn
  (a \<open>__str__\<close> that fails).\<close>

datatype py_exception =
  Raised (is_Exception: bool) (exc_class: string) (py_str: "py_exception + pystr")

type_synonym 'a result = "py_exception + 'a"

text \<open>\<open>starlette.responses.JSONResponse\<close>: the body and the status code.\<close>

record response =
  content :: json
  status_code :: nat

text \<open>\<open>class PromptRequest(BaseModel): prompt: str\<close>\<close>

datatype PromptRequest = PromptRequest (prompt: string)

subsection \<open>The world outside the module\<close>

datatype event =
    Print string
  | Configure string
  | CallGenerativeModel string
  | CallGenerateContent string
  | UvicornRun string nat bool

record world =
  environ :: "string \<rightharpoonup> string"
  configured_api_key :: "string option"
  events :: "event list"

fun is_Configure :: "event \<Rightarrow> bool" where
  "is_Configure (Configure k) = True"
| "is_Configure ev = False"

definition emit :: "event \<Rightarrow> world \<Rightarrow> world" where
  "emit ev w = w\<lparr>events := events w @ [ev]\<rparr>"

text \<open>The \<open>google.generativeai\<close> client, as the handler uses it: constructing a model,
  calling \<open>generate_content\<close> on it and reading the \<open>text\<close> property of the answer. Each
  of the three may raise. The library is a black box, so it is a parameter.\<close>

record ('m, 'r) genai =
  GenerativeModel :: "string \<Rightarrow> 'm result"
  generate_content :: "'m \<Rightarrow> string \<Rightarrow> 'r result"
  response_text :: "'r \<Rightarrow> pystr result"

text \<open>\<open>genai.configure(api_key=k)\<close> stores the key in the library's process-wide
  configuration.\<close>

definition genai_configure :: "string \<Rightarrow> world \<Rightarrow> world" where
  "genai_configure k w = emit (Configure k) (w\<lparr>configured_api_key := Some k\<rparr>)"

subsection \<open>Python built-ins the module relies on\<close>

text \<open>Truth value of an \<open>Optional[str]\<close>: \<open>None\<close> and the empty string are falsy.\<close>

fun truthy :: "string option \<Rightarrow> bool" where
  "truthy None = False"
| "truthy (Some s) = (s \<noteq> [])"

text \<open>\<open>str(n)\<close> for an \<open>int\<close>, which is what the f-string \<open>{item_id}\<close> formats: decimal
  digits, most significant first, with a minus sign for negative numbers.\<close>

definition digit_char :: "nat \<Rightarrow> char" where
  "digit_char d = ''0123456789'' ! (d mod 10)"

fun str_nat :: "nat \<Rightarrow> string" where
  "str_nat n = (if n < 10 then [digit_char n] else str_nat (n div 10) @ [digit_char (n mod 10)])"

declare str_nat.simps [simp del]

definition str_int :: "int \<Rightarrow> string" where
  "str_int i = (if i < 0 then CHR ''-'' # str_nat (nat (- i)) else str_nat (nat i))"

text \<open>\<open>d[k] = v\<close> on a \<open>dict\<close>: replaces the value of an existing key in place, appends a
  new key at the end.\<close>

fun dict_setitem :: "(string \<times> json) list \<Rightarrow> string \<Rightarrow> json \<Rightarrow> (string \<times> json) list" where
  "dict_setitem [] k v = [(k, v)]"
| "dict_setitem ((k', v') # d) k v =
     (if k' = k then (k, v) # d else (k', v') # dict_setitem d k v)"

text \<open>\<open>s.encode("utf-8")\<close>: one to four bytes for each code point, and no encoding for a
  surrogate.\<close>

definition is_surrogate :: "nat \<Rightarrow> bool" where
  "is_surrogate c = (55296 \<le> c \<and> c \<le> 57343)"

definition utf8_char :: "nat \<Rightarrow> string option" where
  "utf8_char c =
     (if c < 128 then Some [char_of c]
      else if c < 2048 then Some [char_of (192 + c div 64), char_of (128 + c mod 64)]
      else if is_surrogate c then None
      else if c < 65536 then
        Some [char_of (224 + c div 4096), char_of (128 + c div 64 mod 64),
              char_of (128 + c mod 64)]
      else
        Some [char_of (240 + c div 262144), char_of (128 + c div 4096 mod 64),
              char_of (128 + c div 64 mod 64), char_of (128 + c mod 64)])"

fun utf8_encode :: "pystr \<Rightarrow> string option" where
  "utf8_encode [] = Some []"
| "utf8_encode (c # cs) =
     (case utf8_char c of
        None \<Rightarrow> None
      | Some b \<Rightarrow> (case utf8_encode cs of None \<Rightarrow> None | Some bs \<Rightarrow> Some (b @ bs)))"

text \<open>\<open>json.dumps(d, ensure_ascii=False, separators=(",", ":"))\<close> for a \<open>dict\<close> of \<open>str\<close>
  values, which is the text \<open>JSONResponse\<close> encodes: the quote, the backslash and the
  control characters are escaped, every other code point stands for itself.\<close>

definition hex_digit :: "nat \<Rightarrow> nat" where
  "hex_digit d = of_char (''0123456789abcdef'' ! (d mod 16))"

definition hex4 :: "nat \<Rightarrow> pystr" where
  "hex4 c = [hex_digit (c div 4096), hex_digit (c div 256), hex_digit (c div 16), hex_digit c]"

definition json_escape_char :: "nat \<Rightarrow> pystr" where
  "json_escape_char c =
     (if c = 34 then [92, 34]
      else if c = 92 then [92, 92]
      else if c = 10 then [92, 110]
      else if c = 13 then [92, 114]
      else if c = 9 then [92, 116]
      else if c = 8 then [92, 98]
      else if c = 12 then [92, 102]
      else if c < 32 then [92, 117] @ hex4 c
      else [c])"

definition json_string :: "pystr \<Rightarrow> pystr" where
  "json_string s = [34] @ concat (map json_escape_char s) @ [34]"

fun json_items :: "(string \<times> pystr) list \<Rightarrow> pystr" where
  "json_items [] = []"
| "json_items [(k, v)] = json_string (codepoints k) @ [58] @ json_string v"
| "json_items ((k, v) # d) =
     json_string (codepoints k) @ [58] @ json_string v @ [44] @ json_items d"

definition json_dumps :: "(string \<times> pystr) list \<Rightarrow> pystr" where
  "json_dumps d = [123] @ json_items d @ [125]"

text \<open>The message of the \<open>UnicodeEncodeError\<close> that encoding a text with a surrogate
  raises. It names the first run of surrogates: by the code point and its position when
  the run is one long, by its first and last position otherwise. The message is ASCII;
  the numbers 39, 92 and 45 are the apostrophe, the backslash and the hyphen.\<close>

definition encode_error_message :: "pystr \<Rightarrow> pystr" where
  "encode_error_message s =
     (let start = length (takeWhile (\<lambda>c. \<not> is_surrogate c) s);
          run = takeWhile is_surrogate (drop start s)
      in if length run = 1 then
           [39] @ codepoints ''utf-8'' @ [39] @ codepoints '' codec can'' @ [39] @
           codepoints ''t encode character '' @ [39, 92, 117] @ hex4 (hd run) @ [39] @
           codepoints '' in position '' @ codepoints (str_nat start) @
           codepoints '': surrogates not allowed''
         else
           [39] @ codepoints ''utf-8'' @ [39] @ codepoints '' codec can'' @ [39] @
           codepoints ''t encode characters in position '' @ codepoints (str_nat start) @
           [45] @ codepoints (str_nat (start + length run - 1)) @
           codepoints '': surrogates not allowed'')"

definition UnicodeEncodeError :: "pystr \<Rightarrow> py_exception" where
  "UnicodeEncodeError s = Raised True ''UnicodeEncodeError'' (Inr (encode_error_message s))"

text \<open>\<open>JSONResponse(content=d, status_code=n)\<close> renders its content when it is built:
  the JSON text of \<open>d\<close>, encoded in UTF-8. With a surrogate in a value the encoding
  raises; otherwise the response carries the values, each as its bytes.\<close>

fun render_items :: "(string \<times> pystr) list \<Rightarrow> (string \<times> json) list option" where
  "render_items [] = Some []"
| "render_items ((k, v) # d) =
     (case utf8_encode v of
        None \<Rightarrow> None
      | Some b \<Rightarrow>
          (case render_items d of None \<Rightarrow> None | Some body \<Rightarrow> Some ((k, JString b) # body)))"

definition JSONResponse :: "(string \<times> pystr) list \<Rightarrow> nat \<Rightarrow> response result" where
  "JSONResponse d n =
     (case render_items d of
        None \<Rightarrow> Inl (UnicodeEncodeError (json_dumps d))
      | Some body \<Rightarrow> Inr \<lparr>content = JObject body, status_code = n\<rparr>)"

text \<open>\<open>load_dotenv()\<close> of python-dotenv with its default \<open>override=False\<close>: every variable
  of the \<open>.env\<close> file that the process environment does not hold yet is added to it; a
  variable already in the environment keeps its value. No file is the empty map.\<close>

definition load_dotenv :: "(string \<rightharpoonup> string) \<Rightarrow> world \<Rightarrow> world" where
  "load_dotenv dotenv w = w\<lparr>environ := dotenv ++ environ w\<rparr>"

subsection \<open>Start-up: the module body\<close>

definition GEMINI_API_KEY :: string where
  "GEMINI_API_KEY = ''GEMINI_API_KEY''"

definition key_not_set_error :: py_exception where
  "key_not_set_error =
     Raised True ''ValueError''
       (Inr (codepoints
         ''GEMINI_API_KEY environment variable not set. Please create a .env file and add your key.''))"

text \<open>Lines 34 to 45: read the key, raise when it is falsy, configure the client
  otherwise.\<close>

definition configure_gemini :: "world \<Rightarrow> unit result \<times> world" where
  "configure_gemini w =
     (let api_key = environ w GEMINI_API_KEY in
      if \<not> truthy api_key then
        (Inl key_not_set_error,
         emit (Print ''Error: GEMINI_API_KEY environment variable not set.'') w)
      else
        (Inr (),
         emit (Print ''Gemini API is configured successfully.'')
           (genai_configure (the api_key) w)))"

text \<open>The whole module, top to bottom: \<open>load_dotenv()\<close>, the start-up block, and, when the
  file is run as a script (\<open>__name__ == "__main__"\<close>), \<open>uvicorn.run\<close>. An exception of the
  start-up block ends the module there: nothing after it runs. Creating the application
  object and registering the routes have no effect on the world.\<close>

definition module_body :: "(string \<rightharpoonup> string) \<Rightarrow> bool \<Rightarrow> world \<Rightarrow> unit result \<times> world" where
  "module_body dotenv is_main w =
     (case configure_gemini (load_dotenv dotenv w) of
        (Inl e, w') \<Rightarrow> (Inl e, w')
      | (Inr _, w') \<Rightarrow>
          if is_main then (Inr (), emit (UvicornRun ''127.0.0.1'' 8000 True) w')
          else (Inr (), w'))"

subsection \<open>The handlers\<close>

text \<open>\<open>read_root\<close>: the returned \<open>dict\<close>.\<close>

definition read_root :: json where
  "read_root = JObject [(''message'', JString ''Hello from FastAPI Backend! Gemini is ready.'')]"

text \<open>\<open>read_item(item_id: int, query_param: str = None)\<close>\<close>

definition read_item :: "int \<Rightarrow> string option \<Rightarrow> (string \<times> json) list" where
  "read_item item_id query_param =
     (let item_data =
            [(''item_id'', JInt item_id),
             (''description'', JString (''This is item number '' @ str_int item_id))]
      in if truthy query_param
         then dict_setitem item_data ''query_param'' (JString (the query_param))
         else item_data)"

text \<open>Modelled from the spec: the status code of a response built without one, which is
  the framework's default and is not written in the module; the interface table gives 200
  for every success.\<close>

definition default_status_code :: nat where
  "default_status_code = 200"

text \<open>The \<open>except Exception as e\<close> clause of \<open>generate_content_endpoint\<close>: anything that
  is not an instance of \<open>Exception\<close> keeps propagating. For an instance, line 83 calls
  \<open>str(e)\<close> and builds the 500 response from the message; nothing guards these two calls,
  so an exception of either leaves the handler.\<close>

definition except_Exception :: "py_exception \<Rightarrow> response result" where
  "except_Exception e =
     (if is_Exception e
      then (case py_str e of
              Inl e' \<Rightarrow> Inl e'
            | Inr message \<Rightarrow> JSONResponse [(''error'', message)] 500)
      else Inl e)"

definition gemini_model_name :: string where
  "gemini_model_name = ''gemini-2.5-flash''"

text \<open>\<open>generate_content_endpoint(request_body: PromptRequest)\<close>: the \<open>try\<close> block, statement
  by statement; each call that raises leaves the block for the \<open>except\<close> clause, the
  construction of the response on line 78 included.\<close>

definition generate_content_endpoint ::
    "('m, 'r) genai \<Rightarrow> world \<Rightarrow> PromptRequest \<Rightarrow> response result \<times> world" where
  "generate_content_endpoint g w request_body =
     (let p = prompt request_body;
          w1 = emit (CallGenerativeModel gemini_model_name) w in
      case GenerativeModel g gemini_model_name of
        Inl e \<Rightarrow> (except_Exception e, w1)
      | Inr model \<Rightarrow>
          (let w2 = emit (CallGenerateContent p) w1 in
           case generate_content g model p of
             Inl e \<Rightarrow> (except_Exception e, w2)
           | Inr resp \<Rightarrow>
               (case response_text g resp of
                  Inl e \<Rightarrow> (except_Exception e, w2)
                | Inr generated_text \<Rightarrow>
                    (case JSONResponse [(''text'', generated_text)] default_status_code of
                       Inl e \<Rightarrow> (except_Exception e, w2)
                     | Inr r \<Rightarrow> (Inr r, w2)))))"

subsection \<open>Requests, validation and routing\<close>

text \<open>A request as it arrives, before validation: the body of \<open>POST /generate\<close> is the
  parsed JSON (\<open>None\<close> when the body is not JSON at all), the \<open>item_id\<close> of
  \<open>GET /items/{item_id}\<close> is still the text of the path segment, and \<open>query_param\<close> is
  \<open>None\<close> when the query string does not carry it.\<close>

datatype raw_request =
    GET_root
  | POST_generate "json option"
  | GET_items string "string option"

text \<open>What the client gets: a response the handler built, a rejection by request
  validation (with its status), or an exception that left the handler.\<close>

datatype outcome =
    Sent response
  | Rejected nat
  | Propagated py_exception

text \<open>Modelled from the spec: request validation against the declaration
  \<open>class PromptRequest: prompt: str\<close>, which the framework performs and the module only
  declares. \<open>prompt\<close> must be present and typed as a string.\<close>

definition PromptRequest_validate :: "json option \<Rightarrow> PromptRequest option" where
  "PromptRequest_validate body =
     (case body of
        Some (JObject kvs) \<Rightarrow>
          (case map_of kvs ''prompt'' of
             Some (JString s) \<Rightarrow> Some (PromptRequest s)
           | _ \<Rightarrow> None)
      | _ \<Rightarrow> None)"

text \<open>Modelled from the spec: the status of a request that fails validation (a 422-class
  response), which the framework produces.\<close>

definition request_validation_status :: nat where
  "request_validation_status = 422"

text \<open>Modelled from the spec: the routing layer that the decorators \<open>@app.get\<close> and
  \<open>@app.post\<close> ask the framework for. A request is validated against the handler's
  declared parameters first and rejected when that fails, so the handler runs on validated
  input only; a returned \<open>dict\<close> is sent with the default status. The conversion of the
  path segment to \<open>int\<close> is the framework's, and a parameter here.\<close>

definition app ::
    "(string \<Rightarrow> int option) \<Rightarrow> ('m, 'r) genai \<Rightarrow> world \<Rightarrow> raw_request \<Rightarrow> outcome \<times> world" where
  "app path_int g w req =
     (case req of
        GET_root \<Rightarrow> (Sent \<lparr>content = read_root, status_code = default_status_code\<rparr>, w)
      | POST_generate body \<Rightarrow>
          (case PromptRequest_validate body of
             None \<Rightarrow> (Rejected request_validation_status, w)
           | Some request_body \<Rightarrow>
               (case generate_content_endpoint g w request_body of
                  (Inl e, w') \<Rightarrow> (Propagated e, w')
                | (Inr r, w') \<Rightarrow> (Sent r, w')))
      | GET_items segment query_param \<Rightarrow>
          (case path_int segment of
             None \<Rightarrow> (Rejected request_validation_status, w)
           | Some item_id \<Rightarrow>
               (Sent \<lparr>content = JObject (read_item item_id query_param),
                      status_code = default_status_code\<rparr>, w)))"

text \<open>A history of requests, each with the behaviour the upstream library shows while it
  is served.\<close>

fun serve_all ::
    "(string \<Rightarrow> int option) \<Rightarrow> (('m, 'r) genai \<times> raw_request) list \<Rightarrow> world \<Rightarrow> world" where
  "serve_all path_int [] w = w"
| "serve_all path_int ((g, req) # rest) w = serve_all path_int rest (snd (app path_int g w req))"

text \<open>A plain decimal reading of a path segment (an optional minus sign, then digits), as
  one instance of the framework's conversion.\<close>

definition digit_val :: "char \<Rightarrow> nat option" where
  "digit_val c =
     map_of [(CHR ''0'', 0), (CHR ''1'', 1), (CHR ''2'', 2), (CHR ''3'', 3), (CHR ''4'', 4),
             (CHR ''5'', 5), (CHR ''6'', 6), (CHR ''7'', 7), (CHR ''8'', 8), (CHR ''9'', 9)] c"

fun parse_digits :: "nat \<Rightarrow> string \<Rightarrow> nat option" where
  "parse_digits acc [] = Some acc"
| "parse_digits acc (c # cs) =
     (case digit_val c of None \<Rightarrow> None | Some d \<Rightarrow> parse_digits (10 * acc + d) cs)"

definition parse_int :: "string \<Rightarrow> int option" where
  "parse_int s =
     (case s of
        [] \<Rightarrow> None
      | c # cs \<Rightarrow>
          if c = CHR ''-''
          then (if cs = [] then None else map_option (\<lambda>n. - int n) (parse_digits 0 cs))
          else map_option int (parse_digits 0 s))"

subsection \<open>Fixtures\<close>

definition world0 :: world where
  "world0 = \<lparr>environ = Map.empty, configured_api_key = None, events = []\<rparr>"

text \<open>An upstream that answers every prompt with the given text, and the one whose text
  is \<open>world\<close>.\<close>

definition mock_text :: "pystr \<Rightarrow> (unit, pystr) genai" where
  "mock_text t =
     \<lparr>GenerativeModel = (\<lambda>name. Inr ()),
      generate_content = (\<lambda>model p. Inr t),
      response_text = (\<lambda>resp. Inr resp)\<rparr>"

definition mock_world :: "(unit, pystr) genai" where
  "mock_world = mock_text (codepoints ''world'')"

text \<open>An upstream whose \<open>generate_content\<close> raises the given exception.\<close>

definition mock_raising :: "py_exception \<Rightarrow> (unit, pystr) genai" where
  "mock_raising e =
     \<lparr>GenerativeModel = (\<lambda>name. Inr ()),
      generate_content = (\<lambda>model p. Inl e),
      response_text = (\<lambda>resp. Inr resp)\<rparr>"

text \<open>\<open>RuntimeError("quota exceeded")\<close>; \<open>Exception()\<close>; a \<open>RuntimeError\<close> whose message is
  the letter \<open>a\<close> followed by the lone surrogate \<open>U+D800\<close>; an exception whose \<open>__str__\<close>
  returns an \<open>int\<close>, so that \<open>str(e)\<close> raises a \<open>TypeError\<close>; and \<open>KeyboardInterrupt()\<close>.\<close>

definition quota_error :: py_exception where
  "quota_error = Raised True ''RuntimeError'' (Inr (codepoints ''quota exceeded''))"

definition bare_exception :: py_exception where
  "bare_exception = Raised True ''Exception'' (Inr [])"

definition surrogate_error :: py_exception where
  "surrogate_error = Raised True ''RuntimeError'' (Inr [97, 55296])"

definition str_type_error :: py_exception where
  "str_type_error =
     Raised True ''TypeError'' (Inr (codepoints ''__str__ returned non-string (type int)''))"

definition unprintable_error :: py_exception where
  "unprintable_error = Raised True ''Exception'' (Inl str_type_error)"

definition keyboard_interrupt :: py_exception where
  "keyboard_interrupt = Raised False ''KeyboardInterrupt'' (Inr [])"

text \<open>A process environment that holds the key, and a short history of requests.\<close>

definition world_with_key :: world where
  "world_with_key =
     \<lparr>environ = [GEMINI_API_KEY \<mapsto> ''secret''], configured_api_key = None, events = []\<rparr>"

definition history0 :: "((unit, pystr) genai \<times> raw_request) list" where
  "history0 =
     [(mock_world, POST_generate (Some (JObject [(''prompt'', JString ''hello'')]))),
      (mock_raising quota_error, POST_generate (Some (JObject [(''prompt'', JString ''again'')]))),
      (mock_world, GET_items ''7'' (Some ''x'')),
      (mock_world, GET_root)]"

text \<open>The message of the \<open>UnicodeEncodeError\<close> that Python raises for the lone surrogate
  \<open>U+D800\<close> at the given position of a text; \<open>CHR 0x27\<close> is the apostrophe and \<open>CHR 0x5C\<close>
  the backslash. The surrogate of the text \<open>a\ud800\<close> is at position 10 of the JSON text
  \<open>{"text":"a\ud800"}\<close> and at position 11 of \<open>{"error":"a\ud800"}\<close>.\<close>

definition surrogate_message :: "string \<Rightarrow> string" where
  "surrogate_message position =
     [CHR 0x27] @ ''utf-8'' @ [CHR 0x27] @ '' codec can'' @ [CHR 0x27] @
     ''t encode character '' @ [CHR 0x27, CHR 0x5C] @ ''ud800'' @ [CHR 0x27] @
     '' in position '' @ position @ '': surrogates not allowed''"

section \<open>Properties\<close>

subsection \<open>The world under \<open>emit\<close> and \<open>load_dotenv\<close>\<close>

lemma events_emit [simp]: "events (emit ev w) = events w @ [ev]"
  by (simp add: emit_def)

lemma configured_api_key_emit [simp]: "configured_api_key (emit ev w) = configured_api_key w"
  by (simp add: emit_def)

lemma environ_emit [simp]: "environ (emit ev w) = environ w"
  by (simp add: emit_def)

lemma environ_load_dotenv:
  "environ (load_dotenv dotenv w) k = (case environ w k of Some v \<Rightarrow> Some v | None \<Rightarrow> dotenv k)"
  by (simp add: load_dotenv_def map_add_def split: option.splits)

lemma load_dotenv_keeps [simp]:
  "events (load_dotenv dotenv w) = events w"
  "configured_api_key (load_dotenv dotenv w) = configured_api_key w"
  by (simp_all add: load_dotenv_def)

subsection \<open>Decimal formatting reads back\<close>

lemma digit_cases:
  assumes "d < (10::nat)"
  shows "d = 0 \<or> d = 1 \<or> d = 2 \<or> d = 3 \<or> d = 4 \<or> d = 5 \<or> d = 6 \<or> d = 7 \<or> d = 8 \<or> d = 9"
  using assms by arith

lemma digit_val_digit_char:
  assumes "d < 10"
  shows "digit_val (digit_char d) = Some d"
  using digit_cases [OF assms] by (elim disjE) (simp_all add: digit_val_def digit_char_def)

lemma digit_char_not_minus:
  assumes "d < 10"
  shows "digit_char d \<noteq> CHR ''-''"
  using digit_cases [OF assms] by (elim disjE) (simp_all add: digit_char_def)

lemma parse_digits_append:
  "parse_digits acc (xs @ ys) =
     (case parse_digits acc xs of None \<Rightarrow> None | Some a \<Rightarrow> parse_digits a ys)"
  by (induction xs arbitrary: acc) (simp_all split: option.splits)

lemma parse_digits_str_nat: "parse_digits 0 (str_nat n) = Some n"
proof (induction n rule: str_nat.induct)
  case (1 n)
  show ?case
  proof (cases "n < 10")
    case True
    then show ?thesis
      by (subst str_nat.simps) (simp add: digit_val_digit_char)
  next
    case False
    with "1.IH" have ih: "parse_digits 0 (str_nat (n div 10)) = Some (n div 10)"
      by simp
    have "n mod 10 < 10" by simp
    then have "digit_val (digit_char (n mod 10)) = Some (n mod 10)"
      by (rule digit_val_digit_char)
    with False ih show ?thesis
      by (subst str_nat.simps) (simp add: parse_digits_append)
  qed
qed

lemma str_nat_starts_with_digit: "\<exists>c cs. str_nat n = c # cs \<and> c \<noteq> CHR ''-''"
proof (induction n rule: str_nat.induct)
  case (1 n)
  show ?case
  proof (cases "n < 10")
    case True
    then show ?thesis
      by (subst str_nat.simps) (simp add: digit_char_not_minus)
  next
    case False
    with "1.IH" obtain c cs where "str_nat (n div 10) = c # cs" "c \<noteq> CHR ''-''"
      by blast
    with False show ?thesis
      by (subst str_nat.simps) simp
  qed
qed

lemma parse_int_str_int: "parse_int (str_int i) = Some i"
proof (cases "i < 0")
  case True
  obtain c cs where "str_nat (nat (- i)) = c # cs"
    using str_nat_starts_with_digit by blast
  with True parse_digits_str_nat [of "nat (- i)"] show ?thesis
    by (simp add: parse_int_def str_int_def)
next
  case False
  obtain c cs where "str_nat (nat i) = c # cs" "c \<noteq> CHR ''-''"
    using str_nat_starts_with_digit by blast
  with False parse_digits_str_nat [of "nat i"] show ?thesis
    by (simp add: parse_int_def str_int_def)
qed

lemma str_int_inject: "str_int i = str_int j \<Longrightarrow> i = j"
  by (metis parse_int_str_int option.inject)

subsection \<open>Rendering a response\<close>

lemma utf8_char_ascii:
  assumes "(of_char c :: nat) < 128"
  shows "utf8_char (of_char c) = Some [c]"
  using assms by (simp add: utf8_char_def)

lemma utf8_encode_ascii:
  assumes "list_all (\<lambda>c. (of_char c :: nat) < 128) s"
  shows "utf8_encode (codepoints s) = Some s"
  using assms by (induction s) (simp_all add: codepoints_def utf8_char_ascii)

lemma utf8_encode_surrogate: "utf8_encode [97, 55296] = None"
  by (simp add: utf8_char_def is_surrogate_def)

lemma JSONResponse_encodable:
  assumes "utf8_encode v = Some b"
  shows "JSONResponse [(k, v)] n = Inr \<lparr>content = JObject [(k, JString b)], status_code = n\<rparr>"
  using assms by (simp add: JSONResponse_def)

lemma JSONResponse_returns:
  assumes "JSONResponse [(k, v)] n = Inr r"
  shows "\<exists>b. utf8_encode v = Some b \<and>
             r = \<lparr>content = JObject [(k, JString b)], status_code = n\<rparr>"
  using assms by (auto simp: JSONResponse_def split: option.splits)

lemma JSONResponse_surrogate:
  "JSONResponse [(k, [97, 55296])] n = Inl (UnicodeEncodeError (json_dumps [(k, [97, 55296])]))"
  unfolding JSONResponse_def render_items.simps utf8_encode_surrogate by simp

lemma except_Exception_returns:
  assumes "except_Exception e = Inr r"
  shows "\<exists>b. r = \<lparr>content = JObject [(''error'', JString b)], status_code = 500\<rparr>"
  using assms
  by (auto simp: except_Exception_def split: if_splits sum.splits dest: JSONResponse_returns)

text \<open>The two messages of the fixtures, computed.\<close>

lemma hex4_D800: "hex4 55296 = codepoints ''d800''"
  by (simp add: hex4_def hex_digit_def codepoints_def)

lemma str_nat_10_11: "str_nat 10 = ''10''" "str_nat 11 = ''11''"
  by code_simp+

lemma surrogate_message_codepoints:
  "codepoints (surrogate_message position) =
     [39] @ codepoints ''utf-8'' @ [39] @ codepoints '' codec can'' @ [39] @
     codepoints ''t encode character '' @ [39, 92, 117] @ codepoints ''d800'' @ [39] @
     codepoints '' in position '' @ codepoints position @
     codepoints '': surrogates not allowed''"
  by (simp add: surrogate_message_def codepoints_def)

lemma encode_error_text:
  "encode_error_message (json_dumps [(''text'', [97, 55296])]) =
     codepoints (surrogate_message ''10'')"
proof -
  let ?s = "[123, 34, 116, 101, 120, 116, 34, 58, 34, 97, 55296, 34, 125] :: nat list"
  have dumps: "json_dumps [(''text'', [97, 55296])] = ?s"
    by (simp add: json_dumps_def json_string_def json_escape_char_def codepoints_def)
  have start: "length (takeWhile (\<lambda>c. \<not> is_surrogate c) ?s) = 10"
    by (simp add: is_surrogate_def)
  have run: "takeWhile is_surrogate (drop 10 ?s) = [55296]"
    by (simp add: is_surrogate_def)
  show ?thesis
    unfolding dumps encode_error_message_def Let_def start run surrogate_message_codepoints
    by (simp add: hex4_D800 str_nat_10_11)
qed

lemma encode_error_error:
  "encode_error_message (json_dumps [(''error'', [97, 55296])]) =
     codepoints (surrogate_message ''11'')"
proof -
  let ?s = "[123, 34, 101, 114, 114, 111, 114, 34, 58, 34, 97, 55296, 34, 125] :: nat list"
  have dumps: "json_dumps [(''error'', [97, 55296])] = ?s"
    by (simp add: json_dumps_def json_string_def json_escape_char_def codepoints_def)
  have start: "length (takeWhile (\<lambda>c. \<not> is_surrogate c) ?s) = 11"
    by (simp add: is_surrogate_def)
  have run: "takeWhile is_surrogate (drop 11 ?s) = [55296]"
    by (simp add: is_surrogate_def)
  show ?thesis
    unfolding dumps encode_error_message_def Let_def start run surrogate_message_codepoints
    by (simp add: hex4_D800 str_nat_10_11)
qed

lemma surrogate_message_encodes:
  "utf8_encode (codepoints (surrogate_message ''10'')) = Some (surrogate_message ''10'')"
  by (rule utf8_encode_ascii) (simp add: surrogate_message_def)

subsection \<open>No handler touches the client's configuration\<close>

lemma endpoint_keeps_key:
  "configured_api_key (snd (generate_content_endpoint g w rb)) = configured_api_key w"
  by (simp add: generate_content_endpoint_def Let_def split: sum.splits)

lemma endpoint_never_configures:
  "filter is_Configure (events (snd (generate_content_endpoint g w rb))) =
     filter is_Configure (events w)"
  by (simp add: generate_content_endpoint_def Let_def split: sum.splits)

lemma app_keeps_key:
  "configured_api_key (snd (app path_int g w req)) = configured_api_key w"
proof (cases req)
  case GET_root
  then show ?thesis by (simp add: app_def)
next
  case (POST_generate body)
  show ?thesis
  proof (cases "PromptRequest_validate body")
    case None
    with POST_generate show ?thesis by (simp add: app_def)
  next
    case (Some rb)
    obtain r w' where ep: "generate_content_endpoint g w rb = (r, w')"
      by (cases "generate_content_endpoint g w rb")
    with endpoint_keeps_key [of g w rb] have "configured_api_key w' = configured_api_key w"
      by simp
    with POST_generate Some ep show ?thesis
      by (cases r) (simp_all add: app_def)
  qed
next
  case (GET_items seg q)
  then show ?thesis by (simp add: app_def split: option.splits)
qed

lemma app_never_configures:
  "filter is_Configure (events (snd (app path_int g w req))) = filter is_Configure (events w)"
proof (cases req)
  case GET_root
  then show ?thesis by (simp add: app_def)
next
  case (POST_generate body)
  show ?thesis
  proof (cases "PromptRequest_validate body")
    case None
    with POST_generate show ?thesis by (simp add: app_def)
  next
    case (Some rb)
    obtain r w' where ep: "generate_content_endpoint g w rb = (r, w')"
      by (cases "generate_content_endpoint g w rb")
    with endpoint_never_configures [of g w rb]
    have "filter is_Configure (events w') = filter is_Configure (events w)"
      by simp
    with POST_generate Some ep show ?thesis
      by (cases r) (simp_all add: app_def)
  qed
next
  case (GET_items seg q)
  then show ?thesis by (simp add: app_def split: option.splits)
qed

lemma serve_all_keeps_key:
  "configured_api_key (serve_all path_int history w) = configured_api_key w"
  by (induction path_int history w rule: serve_all.induct) (simp_all add: app_keeps_key)

lemma serve_all_never_configures:
  "filter is_Configure (events (serve_all path_int history w)) = filter is_Configure (events w)"
  by (induction path_int history w rule: serve_all.induct) (simp_all add: app_never_configures)

subsection \<open>Start-up\<close>

lemma module_body_abort:
  assumes "\<not> truthy (environ (load_dotenv dotenv w) GEMINI_API_KEY)"
  shows "module_body dotenv is_main w =
           (Inl key_not_set_error,
            emit (Print ''Error: GEMINI_API_KEY environment variable not set.'')
              (load_dotenv dotenv w))"
  using assms by (simp add: module_body_def configure_gemini_def Let_def)

lemma module_body_ok:
  assumes "environ (load_dotenv dotenv w) GEMINI_API_KEY = Some k" and "k \<noteq> []"
  shows "fst (module_body dotenv is_main w) = Inr ()"
    and "configured_api_key (snd (module_body dotenv is_main w)) = Some k"
    and "filter is_Configure (events (snd (module_body dotenv is_main w))) =
           filter is_Configure (events w) @ [Configure k]"
  using assms
  by (simp_all add: module_body_def configure_gemini_def Let_def genai_configure_def)

section \<open>The claims\<close>

subsection \<open>The item route\<close>

text \<open>Claim C4: for every integer \<open>item_id\<close>, the answer to \<open>GET /items/{item_id}\<close> has the
  description \<open>This is item number\<close> followed by \<open>item_id\<close> in decimal, whatever the query
  parameter is, and serving the request changes nothing: the world after it is the world
  before it. The decimal text is the one that reads back as \<open>item_id\<close>.\<close>

theorem read_item_description:
  assumes "path_int segment = Some item_id"
  shows "app path_int g w (GET_items segment q) =
           (Sent \<lparr>content = JObject (read_item item_id q), status_code = 200\<rparr>, w) \<and>
         map_of (read_item item_id q) ''description'' =
           Some (JString (''This is item number '' @ str_int item_id)) \<and>
         parse_int (str_int item_id) = Some item_id"
  using assms
  by (simp add: app_def read_item_def Let_def default_status_code_def parse_int_str_int)

theorem read_item_description_witness:
  "parse_int ''42'' = Some 42 \<and>
   app parse_int mock_world world0 (GET_items ''42'' None) =
     (Sent \<lparr>content = JObject (read_item 42 None), status_code = 200\<rparr>, world0) \<and>
   map_of (read_item 42 None) ''description'' = Some (JString ''This is item number 42'') \<and>
   map_of (read_item (- 7) (Some ''x'')) ''description'' = Some (JString ''This is item number -7'')"
proof -
  have p: "parse_int ''42'' = Some 42"
    by (simp add: parse_int_def digit_val_def)
  have s: "str_int 42 = ''42''" "str_int (- 7) = ''-7''"
    by code_simp+
  have q: "parse_int (str_int (- 7)) = Some (- 7)"
    by (simp add: s parse_int_def digit_val_def)
  from read_item_description [of parse_int "''42''" 42 mock_world world0 None]
       read_item_description [of parse_int "str_int (- 7)" "- 7" mock_world world0 "Some ''x''"]
  show ?thesis
    using p q s by simp
qed

text \<open>Claim C3: a query parameter \<open>X\<close> that is supplied and non-empty is echoed unchanged
  in the field \<open>query_param\<close>; when the parameter is omitted the field is absent, and so it
  is for the empty string, which the handler treats like a missing one. The field is
  therefore never present as \<open>null\<close> or as the empty string.\<close>

theorem read_item_query_param_echo:
  "(X \<noteq> [] \<longrightarrow> map_of (read_item item_id (Some X)) ''query_param'' = Some (JString X)) \<and>
   map_of (read_item item_id None) ''query_param'' = None \<and>
   map_of (read_item item_id (Some [])) ''query_param'' = None \<and>
   map_of (read_item item_id q) ''query_param'' \<noteq> Some JNull \<and>
   map_of (read_item item_id q) ''query_param'' \<noteq> Some (JString [])"
  by (cases q) (simp_all add: read_item_def Let_def)

theorem read_item_query_param_echo_witness:
  "''blue'' \<noteq> [] \<and>
   read_item 3 (Some ''blue'') =
     [(''item_id'', JInt 3), (''description'', JString ''This is item number 3''),
      (''query_param'', JString ''blue'')] \<and>
   map_of (read_item 3 (Some ''blue'')) ''query_param'' = Some (JString ''blue'') \<and>
   map_of (read_item 3 None) ''query_param'' = None \<and>
   map_of (read_item 3 (Some [])) ''query_param'' = None"
proof -
  have s: "str_int 3 = ''3''"
    by code_simp
  have r: "read_item 3 (Some ''blue'') =
     [(''item_id'', JInt 3), (''description'', JString ''This is item number 3''),
      (''query_param'', JString ''blue'')]"
    by (simp add: read_item_def Let_def s)
  from read_item_query_param_echo [of "''blue''" 3 None] r show ?thesis
    by simp
qed

text \<open>Claim C10: for every integer \<open>item_id\<close>, zero and negative ones included, the
  response object has the keys \<open>item_id\<close> and \<open>description\<close>, then \<open>query_param\<close> exactly
  when a truthy query parameter was supplied, and no other key; the field \<open>item_id\<close> is
  the path parameter unchanged.\<close>

theorem read_item_keys:
  "map fst (read_item item_id q) =
     (if truthy q then [''item_id'', ''description'', ''query_param'']
      else [''item_id'', ''description'']) \<and>
   map_of (read_item item_id q) ''item_id'' = Some (JInt item_id)"
  by (simp add: read_item_def Let_def)

subsection \<open>The root route\<close>

text \<open>Claim C8: \<open>GET /\<close> is answered with status 200 and the fixed message, after any
  history of requests, from any world and whatever the upstream library does; serving it
  changes nothing.\<close>

theorem read_root_constant:
  "app path_int g (serve_all path_int history w) GET_root =
     (Sent \<lparr>content = JObject [(''message'', JString ''Hello from FastAPI Backend! Gemini is ready.'')],
            status_code = 200\<rparr>,
      serve_all path_int history w)"
  by (simp add: app_def read_root_def default_status_code_def)

subsection \<open>The generation route\<close>

text \<open>An exception that is not an instance of \<open>Exception\<close> is not caught by the handler.\<close>

lemma endpoint_propagates_other:
  assumes "\<not> is_Exception e" and "GenerativeModel g gemini_model_name = Inl e"
  shows "fst (generate_content_endpoint g w request_body) = Inl e"
  using assms by (simp add: generate_content_endpoint_def Let_def except_Exception_def)

text \<open>Claim C2, as amended: when the upstream succeeds, that is, the model built under the
  fixed name \<open>gemini-2.5-flash\<close> answers the prompt \<open>p\<close>, passed as it came, with a response
  whose text is \<open>t\<close>, and \<open>t\<close> can be encoded in UTF-8 (\<open>b\<close> is its encoding), then
  \<open>POST /generate\<close> with the body \<open>{"prompt": p}\<close> is answered with status 200 and exactly
  the body \<open>{"text": t}\<close>. The calls made on the way are the construction of the model
  under that name and one \<open>generate_content\<close> with the prompt \<open>p\<close>.\<close>

theorem generate_success_returns_text:
  assumes "GenerativeModel g ''gemini-2.5-flash'' = Inr model"
    and "generate_content g model p = Inr resp"
    and "response_text g resp = Inr t"
    and "utf8_encode t = Some b"
  shows "generate_content_endpoint g w (PromptRequest p) =
           (Inr \<lparr>content = JObject [(''text'', JString b)], status_code = 200\<rparr>,
            w\<lparr>events := events w @
                 [CallGenerativeModel ''gemini-2.5-flash'', CallGenerateContent p]\<rparr>) \<and>
         fst (app path_int g w (POST_generate (Some (JObject [(''prompt'', JString p)])))) =
           Sent \<lparr>content = JObject [(''text'', JString b)], status_code = 200\<rparr>"
  using assms
  by (simp add: app_def PromptRequest_validate_def generate_content_endpoint_def Let_def
        gemini_model_name_def default_status_code_def emit_def JSONResponse_encodable)

theorem generate_success_returns_text_witness:
  "GenerativeModel mock_world ''gemini-2.5-flash'' = Inr () \<and>
   generate_content mock_world () ''hello'' = Inr (codepoints ''world'') \<and>
   response_text mock_world (codepoints ''world'') = Inr (codepoints ''world'') \<and>
   utf8_encode (codepoints ''world'') = Some ''world'' \<and>
   fst (generate_content_endpoint mock_world world0 (PromptRequest ''hello'')) =
     Inr \<lparr>content = JObject [(''text'', JString ''world'')], status_code = 200\<rparr> \<and>
   events (snd (generate_content_endpoint mock_world world0 (PromptRequest ''hello''))) =
     [CallGenerativeModel ''gemini-2.5-flash'', CallGenerateContent ''hello''] \<and>
   fst (app parse_int mock_world world0
          (POST_generate (Some (JObject [(''prompt'', JString ''hello'')])))) =
     Sent \<lparr>content = JObject [(''text'', JString ''world'')], status_code = 200\<rparr>"
proof -
  have h: "GenerativeModel mock_world ''gemini-2.5-flash'' = Inr ()"
    "generate_content mock_world () ''hello'' = Inr (codepoints ''world'')"
    "response_text mock_world (codepoints ''world'') = Inr (codepoints ''world'')"
    by (simp_all add: mock_world_def mock_text_def)
  have u: "utf8_encode (codepoints ''world'') = Some ''world''"
    by (rule utf8_encode_ascii) simp
  from generate_success_returns_text [OF h u, of world0 parse_int] h u show ?thesis
    by (simp add: world0_def)
qed

text \<open>Claim C2, as stated, fails on a text that UTF-8 cannot encode. The upstream succeeds
  with the text \<open>a\ud800\<close>; building the response on line 78 raises inside the \<open>try\<close>
  block, and the answer is the error form with status 500.\<close>

theorem generate_success_unencodable_counterexample:
  "GenerativeModel (mock_text [97, 55296]) ''gemini-2.5-flash'' = Inr () \<and>
   generate_content (mock_text [97, 55296]) () ''hello'' = Inr [97, 55296] \<and>
   response_text (mock_text [97, 55296]) [97, 55296] = Inr [97, 55296] \<and>
   fst (generate_content_endpoint (mock_text [97, 55296]) world0 (PromptRequest ''hello'')) =
     Inr \<lparr>content = JObject [(''error'', JString (surrogate_message ''10''))],
          status_code = 500\<rparr>"
proof -
  have "except_Exception (UnicodeEncodeError (json_dumps [(''text'', [97, 55296])])) =
          Inr \<lparr>content = JObject [(''error'', JString (surrogate_message ''10''))],
               status_code = 500\<rparr>"
    by (simp add: except_Exception_def UnicodeEncodeError_def encode_error_text
          JSONResponse_encodable [OF surrogate_message_encodes])
  then show ?thesis
    by (simp add: generate_content_endpoint_def mock_text_def Let_def JSONResponse_surrogate)
qed

text \<open>Claim C1, as amended: whichever step of the handler raises (building the model,
  calling it, or reading the text of its answer), an exception \<open>e\<close> that is an instance of
  \<open>Exception\<close>, whose \<open>str(e)\<close> returns a message \<open>m\<close> that can be encoded in UTF-8 (\<open>b\<close> is
  its encoding), is caught and answered with status 500 and exactly the body
  \<open>{"error": m}\<close>; \<open>m\<close> may be the empty string. That body has no field \<open>text\<close>, and a
  response of the handler is of the text form or of the error form, never of both.\<close>

theorem generate_failure_returns_500:
  "(is_Exception e \<and> py_str e = Inr m \<and> utf8_encode m = Some b \<and>
    (GenerativeModel g ''gemini-2.5-flash'' = Inl e \<or>
     (\<exists>model. GenerativeModel g ''gemini-2.5-flash'' = Inr model \<and>
        (generate_content g model (prompt request_body) = Inl e \<or>
         (\<exists>resp. generate_content g model (prompt request_body) = Inr resp \<and>
            response_text g resp = Inl e)))) \<longrightarrow>
    fst (generate_content_endpoint g w request_body) =
      Inr \<lparr>content = JObject [(''error'', JString b)], status_code = 500\<rparr> \<and>
    fst (app path_int g w
           (POST_generate (Some (JObject [(''prompt'', JString (prompt request_body))])))) =
      Sent \<lparr>content = JObject [(''error'', JString b)], status_code = 500\<rparr>) \<and>
   map_of [(''error'', JString b)] ''text'' = None \<and>
   (\<forall>r. fst (generate_content_endpoint g w request_body) = Inr r \<longrightarrow>
      (\<exists>t. r = \<lparr>content = JObject [(''text'', JString t)], status_code = 200\<rparr>) \<noteq>
      (\<exists>m. r = \<lparr>content = JObject [(''error'', JString m)], status_code = 500\<rparr>))"
proof (intro conjI impI allI)
  assume a: "is_Exception e \<and> py_str e = Inr m \<and> utf8_encode m = Some b \<and>
    (GenerativeModel g ''gemini-2.5-flash'' = Inl e \<or>
     (\<exists>model. GenerativeModel g ''gemini-2.5-flash'' = Inr model \<and>
        (generate_content g model (prompt request_body) = Inl e \<or>
         (\<exists>resp. generate_content g model (prompt request_body) = Inr resp \<and>
            response_text g resp = Inl e))))"
  then have caught: "except_Exception e =
      Inr \<lparr>content = JObject [(''error'', JString b)], status_code = 500\<rparr>"
    by (simp add: except_Exception_def JSONResponse_encodable)
  from a show ep: "fst (generate_content_endpoint g w request_body) =
      Inr \<lparr>content = JObject [(''error'', JString b)], status_code = 500\<rparr>"
    by (auto simp: generate_content_endpoint_def gemini_model_name_def Let_def caught)
  have "PromptRequest_validate (Some (JObject [(''prompt'', JString (prompt request_body))])) =
          Some request_body"
    by (cases request_body) (simp add: PromptRequest_validate_def)
  with ep show "fst (app path_int g w
          (POST_generate (Some (JObject [(''prompt'', JString (prompt request_body))])))) =
      Sent \<lparr>content = JObject [(''error'', JString b)], status_code = 500\<rparr>"
    by (cases "generate_content_endpoint g w request_body") (simp add: app_def)
next
  show "map_of [(''error'', JString b)] ''text'' = None"
    by simp
next
  fix r
  assume "fst (generate_content_endpoint g w request_body) = Inr r"
  then have "(\<exists>b. r = \<lparr>content = JObject [(''text'', JString b)], status_code = 200\<rparr>) \<or>
             (\<exists>b. r = \<lparr>content = JObject [(''error'', JString b)], status_code = 500\<rparr>)"
    by (auto simp: generate_content_endpoint_def Let_def default_status_code_def
          split: sum.splits dest: JSONResponse_returns except_Exception_returns)
  then show "(\<exists>t. r = \<lparr>content = JObject [(''text'', JString t)], status_code = 200\<rparr>) \<noteq>
      (\<exists>m. r = \<lparr>content = JObject [(''error'', JString m)], status_code = 500\<rparr>)"
    by auto
qed

theorem generate_failure_returns_500_witness:
  "is_Exception quota_error \<and>
   py_str quota_error = Inr (codepoints ''quota exceeded'') \<and>
   utf8_encode (codepoints ''quota exceeded'') = Some ''quota exceeded'' \<and>
   generate_content (mock_raising quota_error) () ''hello'' = Inl quota_error \<and>
   fst (generate_content_endpoint (mock_raising quota_error) world0 (PromptRequest ''hello'')) =
     Inr \<lparr>content = JObject [(''error'', JString ''quota exceeded'')], status_code = 500\<rparr> \<and>
   fst (app parse_int (mock_raising quota_error) world0
          (POST_generate (Some (JObject [(''prompt'', JString ''hello'')])))) =
     Sent \<lparr>content = JObject [(''error'', JString ''quota exceeded'')], status_code = 500\<rparr>"
proof -
  have h: "is_Exception quota_error"
    "py_str quota_error = Inr (codepoints ''quota exceeded'')"
    "GenerativeModel (mock_raising quota_error) ''gemini-2.5-flash'' = Inr ()"
    "generate_content (mock_raising quota_error) () ''hello'' = Inl quota_error"
    by (simp_all add: mock_raising_def quota_error_def)
  have u: "utf8_encode (codepoints ''quota exceeded'') = Some ''quota exceeded''"
    by (rule utf8_encode_ascii) simp
  from generate_failure_returns_500
         [of quota_error "codepoints ''quota exceeded''" "''quota exceeded''"
             "mock_raising quota_error" "PromptRequest ''hello''" world0 parse_int] h u
  show ?thesis
    by simp
qed

text \<open>Claim C1, as stated, fails in four ways. An upstream call that raises \<open>Exception()\<close>,
  whose \<open>str\<close> is empty, is answered with the body \<open>{"error": ""}\<close>. One that raises a
  \<open>RuntimeError\<close> with the message \<open>a\ud800\<close> is not answered by the handler: building the
  500 response raises a \<open>UnicodeEncodeError\<close>, which leaves it. One that raises an
  exception whose \<open>str\<close> raises is not answered either: the \<open>TypeError\<close> leaves the
  handler. And \<open>KeyboardInterrupt\<close>, which is not an \<open>Exception\<close>, is not caught.\<close>

theorem generate_error_message_empty_counterexample:
  "is_Exception bare_exception \<and>
   generate_content (mock_raising bare_exception) () ''hello'' = Inl bare_exception \<and>
   fst (generate_content_endpoint (mock_raising bare_exception) world0
          (PromptRequest ''hello'')) =
     Inr \<lparr>content = JObject [(''error'', JString [])], status_code = 500\<rparr> \<and>
   is_Exception surrogate_error \<and>
   fst (generate_content_endpoint (mock_raising surrogate_error) world0
          (PromptRequest ''hello'')) =
     Inl (Raised True ''UnicodeEncodeError'' (Inr (codepoints (surrogate_message ''11'')))) \<and>
   is_Exception unprintable_error \<and>
   fst (generate_content_endpoint (mock_raising unprintable_error) world0
          (PromptRequest ''hello'')) = Inl str_type_error \<and>
   fst (generate_content_endpoint (mock_raising keyboard_interrupt) world0
          (PromptRequest ''hello'')) = Inl keyboard_interrupt"
proof -
  have "except_Exception bare_exception =
          Inr \<lparr>content = JObject [(''error'', JString [])], status_code = 500\<rparr>"
    by (simp add: except_Exception_def bare_exception_def JSONResponse_def)
  moreover have "except_Exception surrogate_error =
          Inl (Raised True ''UnicodeEncodeError'' (Inr (codepoints (surrogate_message ''11''))))"
    by (simp add: except_Exception_def surrogate_error_def JSONResponse_surrogate
          UnicodeEncodeError_def encode_error_error)
  moreover have "except_Exception unprintable_error = Inl str_type_error"
    by (simp add: except_Exception_def unprintable_error_def)
  moreover have "except_Exception keyboard_interrupt = Inl keyboard_interrupt"
    by (simp add: except_Exception_def keyboard_interrupt_def)
  moreover have "is_Exception bare_exception" "is_Exception surrogate_error"
    "is_Exception unprintable_error"
    by (simp_all add: bare_exception_def surrogate_error_def unprintable_error_def)
  ultimately show ?thesis
    by (simp add: generate_content_endpoint_def mock_raising_def Let_def)
qed

subsection \<open>Request validation\<close>

text \<open>Claim C6: a \<open>POST /generate\<close> request whose body is not JSON, is not an object, or
  has no field \<open>prompt\<close> holding a string, is rejected with status 422 before the handler
  runs: the world is left as it was, so no call to the upstream library was made for
  it.\<close>

theorem invalid_body_rejected_before_handler:
  assumes "\<not> (\<exists>kvs s. body = Some (JObject kvs) \<and> map_of kvs ''prompt'' = Some (JString s))"
  shows "app path_int g w (POST_generate body) = (Rejected 422, w) \<and>
         events (snd (app path_int g w (POST_generate body))) = events w"
proof -
  have "PromptRequest_validate body = None"
    using assms
    by (auto simp: PromptRequest_validate_def split: option.splits json.splits)
  then show ?thesis
    by (simp add: app_def request_validation_status_def)
qed

theorem invalid_body_rejected_before_handler_witness:
  "\<not> (\<exists>kvs s. Some (JObject [(''text'', JString ''hello'')]) = Some (JObject kvs) \<and>
        map_of kvs ''prompt'' = Some (JString s)) \<and>
   app parse_int mock_world world0 (POST_generate (Some (JObject [(''text'', JString ''hello'')]))) =
     (Rejected 422, world0) \<and>
   app parse_int mock_world world0 (POST_generate (Some (JObject [(''prompt'', JInt 5)]))) =
     (Rejected 422, world0) \<and>
   app parse_int mock_world world0 (POST_generate None) = (Rejected 422, world0)"
proof -
  have h1: "\<not> (\<exists>kvs s. Some (JObject [(''text'', JString ''hello'')]) = Some (JObject kvs) \<and>
        map_of kvs ''prompt'' = Some (JString s))"
    by simp
  have h2: "\<not> (\<exists>kvs s. Some (JObject [(''prompt'', JInt 5)]) = Some (JObject kvs) \<and>
        map_of kvs ''prompt'' = Some (JString s))"
    by simp
  have h3: "\<not> (\<exists>kvs s. None = Some (JObject kvs) \<and> map_of kvs ''prompt'' = Some (JString s))"
    by simp
  from invalid_body_rejected_before_handler [OF h1, of parse_int mock_world world0]
       invalid_body_rejected_before_handler [OF h2, of parse_int mock_world world0]
       invalid_body_rejected_before_handler [OF h3, of parse_int mock_world world0]
       h1
  show ?thesis
    by simp
qed

text \<open>Claim C7: a \<open>GET /items/{item_id}\<close> request whose path segment does not convert to
  an integer is rejected with status 422 before the handler runs; \<open>GET /items/abc\<close> is
  one.\<close>

theorem non_integer_item_id_rejected:
  assumes "path_int segment = None"
  shows "app path_int g w (GET_items segment query_param) = (Rejected 422, w)"
  using assms by (simp add: app_def request_validation_status_def)

theorem non_integer_item_id_rejected_witness:
  "parse_int ''abc'' = None \<and>
   app parse_int mock_world world0 (GET_items ''abc'' None) = (Rejected 422, world0)"
proof -
  have h: "parse_int ''abc'' = None"
    by (simp add: parse_int_def digit_val_def)
  from non_integer_item_id_rejected [of parse_int "''abc''" mock_world world0 None] h
  show ?thesis
    by simp
qed

subsection \<open>Start-up\<close>

text \<open>Claim C5: the module reads \<open>GEMINI_API_KEY\<close> from the environment as
  \<open>load_dotenv()\<close> has left it. When the variable is not set there (the test is
  \<open>not api_key\<close>), the module raises the \<open>ValueError\<close> after printing one line and nothing
  else happens: the client is not configured and \<open>uvicorn.run\<close> is not reached, so no
  request is served. When it is set to a key \<open>k\<close>, the module configures the client with
  \<open>k\<close> exactly once, and after any history of requests the configured key is still \<open>k\<close>
  and no further configuration call was made.\<close>

theorem startup_aborts_or_configures_once:
  "(\<not> truthy (environ (load_dotenv dotenv w) GEMINI_API_KEY) \<longrightarrow>
      module_body dotenv is_main w =
        (Inl (Raised True ''ValueError''
               (Inr (codepoints
                 ''GEMINI_API_KEY environment variable not set. Please create a .env file and add your key.''))),
         emit (Print ''Error: GEMINI_API_KEY environment variable not set.'')
           (load_dotenv dotenv w)) \<and>
      events (snd (module_body dotenv is_main w)) =
        events w @ [Print ''Error: GEMINI_API_KEY environment variable not set.''] \<and>
      configured_api_key (snd (module_body dotenv is_main w)) = configured_api_key w) \<and>
   (environ (load_dotenv dotenv w) GEMINI_API_KEY = Some k \<and> k \<noteq> [] \<longrightarrow>
      fst (module_body dotenv is_main w) = Inr () \<and>
      configured_api_key (snd (module_body dotenv is_main w)) = Some k \<and>
      filter is_Configure (events (snd (module_body dotenv is_main w))) =
        filter is_Configure (events w) @ [Configure k] \<and>
      configured_api_key (serve_all path_int history (snd (module_body dotenv is_main w))) =
        Some k \<and>
      filter is_Configure
        (events (serve_all path_int history (snd (module_body dotenv is_main w)))) =
        filter is_Configure (events w) @ [Configure k])"
proof (intro conjI impI)
  assume a: "\<not> truthy (environ (load_dotenv dotenv w) GEMINI_API_KEY)"
  from module_body_abort [OF a]
  show "module_body dotenv is_main w =
        (Inl (Raised True ''ValueError''
               (Inr (codepoints
                 ''GEMINI_API_KEY environment variable not set. Please create a .env file and add your key.''))),
         emit (Print ''Error: GEMINI_API_KEY environment variable not set.'')
           (load_dotenv dotenv w))"
    by (simp add: key_not_set_error_def)
  then show "events (snd (module_body dotenv is_main w)) =
        events w @ [Print ''Error: GEMINI_API_KEY environment variable not set.'']"
    and "configured_api_key (snd (module_body dotenv is_main w)) = configured_api_key w"
    by simp_all
next
  assume a: "environ (load_dotenv dotenv w) GEMINI_API_KEY = Some k \<and> k \<noteq> []"
  then have k: "environ (load_dotenv dotenv w) GEMINI_API_KEY = Some k" and ne: "k \<noteq> []"
    by simp_all
  note ok = module_body_ok [OF k ne, of is_main]
  from ok show "fst (module_body dotenv is_main w) = Inr ()"
    and "configured_api_key (snd (module_body dotenv is_main w)) = Some k"
    and "filter is_Configure (events (snd (module_body dotenv is_main w))) =
        filter is_Configure (events w) @ [Configure k]"
    by simp_all
  from ok show "configured_api_key
       (serve_all path_int history (snd (module_body dotenv is_main w))) = Some k"
    by (simp add: serve_all_keeps_key)
  from ok show "filter is_Configure
        (events (serve_all path_int history (snd (module_body dotenv is_main w)))) =
        filter is_Configure (events w) @ [Configure k]"
    by (simp add: serve_all_never_configures)
qed

theorem startup_aborts_or_configures_once_witness:
  "\<not> truthy (environ (load_dotenv Map.empty world0) GEMINI_API_KEY) \<and>
   fst (module_body Map.empty True world0) =
     Inl (Raised True ''ValueError''
               (Inr (codepoints
                 ''GEMINI_API_KEY environment variable not set. Please create a .env file and add your key.''))) \<and>
   events (snd (module_body Map.empty True world0)) =
     [Print ''Error: GEMINI_API_KEY environment variable not set.''] \<and>
   configured_api_key (snd (module_body Map.empty True world0)) = None \<and>
   environ (load_dotenv Map.empty world_with_key) GEMINI_API_KEY = Some ''secret'' \<and>
   fst (module_body Map.empty True world_with_key) = Inr () \<and>
   configured_api_key (snd (module_body Map.empty True world_with_key)) = Some ''secret'' \<and>
   configured_api_key
     (serve_all parse_int history0 (snd (module_body Map.empty True world_with_key))) =
     Some ''secret'' \<and>
   filter is_Configure
     (events (serve_all parse_int history0 (snd (module_body Map.empty True world_with_key)))) =
     [Configure ''secret'']"
proof -
  have h0: "\<not> truthy (environ (load_dotenv Map.empty world0) GEMINI_API_KEY)"
    by (simp add: load_dotenv_def world0_def)
  have h1: "environ (load_dotenv Map.empty world_with_key) GEMINI_API_KEY = Some ''secret''"
    by (simp add: load_dotenv_def world_with_key_def)
  have e0: "events world0 = []" "configured_api_key world0 = None"
    by (simp_all add: world0_def)
  have e1: "events world_with_key = []"
    by (simp add: world_with_key_def)
  have ne: "''secret'' \<noteq> []"
    by simp
  note unset_case =
    startup_aborts_or_configures_once
      [of Map.empty world0 True "''secret''" parse_int history0, THEN conjunct1, THEN mp, OF h0]
  note set_case =
    startup_aborts_or_configures_once
      [of Map.empty world_with_key True "''secret''" parse_int history0, THEN conjunct2, THEN mp,
       OF conjI [OF h1 ne]]
  from unset_case have u: "fst (module_body Map.empty True world0) =
     Inl (Raised True ''ValueError''
               (Inr (codepoints
                 ''GEMINI_API_KEY environment variable not set. Please create a .env file and add your key.'')))"
    "events (snd (module_body Map.empty True world0)) =
       [Print ''Error: GEMINI_API_KEY environment variable not set.'']"
    "configured_api_key (snd (module_body Map.empty True world0)) = None"
    by (simp_all add: e0)
  from set_case have s: "fst (module_body Map.empty True world_with_key) = Inr ()"
    "configured_api_key (snd (module_body Map.empty True world_with_key)) = Some ''secret''"
    "configured_api_key
       (serve_all parse_int history0 (snd (module_body Map.empty True world_with_key))) =
       Some ''secret''"
    "filter is_Configure
       (events (serve_all parse_int history0 (snd (module_body Map.empty True world_with_key)))) =
       [Configure ''secret'']"
    by (simp_all add: e1)
  from h0 h1 u s show ?thesis
    by blast
qed

text \<open>Claim C9: when the process environment holds \<open>GEMINI_API_KEY\<close> with the empty
  string as its value, the module raises the same \<open>ValueError\<close> as when the variable is
  missing altogether, whatever the \<open>.env\<close> file holds, and the client is not
  configured.\<close>

theorem empty_key_aborts_startup:
  assumes "environ w GEMINI_API_KEY = Some []"
  shows "module_body dotenv is_main w =
           (Inl key_not_set_error,
            emit (Print ''Error: GEMINI_API_KEY environment variable not set.'')
              (load_dotenv dotenv w)) \<and>
         fst (module_body dotenv is_main w) =
           fst (module_body Map.empty is_main
                  (w\<lparr>environ := (environ w)(GEMINI_API_KEY := None)\<rparr>)) \<and>
         configured_api_key (snd (module_body dotenv is_main w)) = configured_api_key w"
proof -
  from assms have a: "\<not> truthy (environ (load_dotenv dotenv w) GEMINI_API_KEY)"
    by (simp add: environ_load_dotenv)
  have b: "\<not> truthy (environ (load_dotenv Map.empty
              (w\<lparr>environ := (environ w)(GEMINI_API_KEY := None)\<rparr>)) GEMINI_API_KEY)"
    by (simp add: environ_load_dotenv)
  from module_body_abort [OF a, of is_main] module_body_abort [OF b, of is_main]
  show ?thesis
    by simp
qed

theorem empty_key_aborts_startup_witness:
  "environ (world0\<lparr>environ := [GEMINI_API_KEY \<mapsto> []]\<rparr>) GEMINI_API_KEY = Some [] \<and>
   fst (module_body [GEMINI_API_KEY \<mapsto> ''from-file''] False
          (world0\<lparr>environ := [GEMINI_API_KEY \<mapsto> []]\<rparr>)) = Inl key_not_set_error \<and>
   configured_api_key (snd (module_body [GEMINI_API_KEY \<mapsto> ''from-file''] False
          (world0\<lparr>environ := [GEMINI_API_KEY \<mapsto> []]\<rparr>))) = None"
proof -
  have h: "environ (world0\<lparr>environ := [GEMINI_API_KEY \<mapsto> []]\<rparr>) GEMINI_API_KEY = Some []"
    by simp
  from empty_key_aborts_startup
         [OF h, of "[GEMINI_API_KEY \<mapsto> ''from-file'']" False] h
  show ?thesis
    by (simp add: world0_def)
qed

end
